theory Spec2Isabelle
  imports Complex_Main "HOL-Library.Word"
begin

section \<open>JavaScript values\<close>

text \<open>
  A JavaScript string is a sequence of UTF-16 code units and \<open>s.length\<close> counts them,
  so a string is a list of 16-bit words. \<open>lit\<close> embeds an ASCII literal of the source.
\<close>

type_synonym code_unit = "16 word"
type_synonym jsstring = "code_unit list"

definition lit :: "string \<Rightarrow> jsstring" where
  "lit s = map (\<lambda>c. of_char c) s"

text \<open>
  A JavaScript number that JSON parsing or arithmetic can yield: a finite value (every
  finite double is a rational; \<open>-0\<close> is \<open>0\<close>), an infinity, or NaN.
\<close>

datatype number = Fin rat | PosInf | NegInf | NaN

text \<open>
  The values that flow through the handlers: what \<open>JSON.parse\<close> builds, and
  \<open>undefined\<close>, the result of reading a property that is not there. An object is the
  list of its own properties; a read takes the first entry with the key.
\<close>

datatype jsval =
    JUndefined
  | JNull
  | JBool bool
  | JNum number
  | JStr jsstring
  | JArr "jsval list"
  | JObj "(jsstring \<times> jsval) list"

text \<open>Truthiness, as \<open>||\<close>, \<open>!\<close> and \<open>Boolean(v)\<close> test it.\<close>

fun truthy :: "jsval \<Rightarrow> bool" where
  "truthy JUndefined = False"
| "truthy JNull = False"
| "truthy (JBool b) = b"
| "truthy (JNum (Fin q)) = (q \<noteq> 0)"
| "truthy (JNum NaN) = False"
| "truthy (JNum _) = True"
| "truthy (JStr s) = (s \<noteq> [])"
| "truthy (JArr _) = True"
| "truthy (JObj _) = True"

text \<open>\<open>a || b\<close>\<close>

definition js_or :: "jsval \<Rightarrow> jsval \<Rightarrow> jsval" where
  "js_or a b = (if truthy a then a else b)"

section \<open>Errors\<close>

text \<open>
  A validation issue of the zod package: the path of the offending field and the issue
  code.
\<close>

datatype issue_code = invalid_type | too_small | too_big | invalid_string

datatype zod_issue = Issue (issue_path: "jsstring list") (issue_code: issue_code)

text \<open>
  A thrown value. \<open>JsError name message\<close> is an Error object with that \<open>name\<close> and
  \<open>message\<close> (\<open>Error\<close>, \<open>TypeError\<close>, \<open>SyntaxError\<close>, the \<open>AbortError\<close> of an aborted
  fetch); \<open>ZodError\<close> is what \<open>schema.parse\<close> throws.
\<close>

datatype js_error = JsError jsstring jsstring | ZodError "zod_issue list"

abbreviation Error :: "jsstring \<Rightarrow> js_error" where
  "Error m \<equiv> JsError (lit ''Error'') m"

abbreviation TypeError :: "jsstring \<Rightarrow> js_error" where
  "TypeError m \<equiv> JsError (lit ''TypeError'') m"

text \<open>
  Text that the runtime and the packages produce and that the repository does not fix:
  the rendering of a number (\<open>String(n)\<close>), the message of a ZodError, the messages
  of the engine's own TypeErrors and of the AbortError of an aborted fetch, and the
  query string that \<open>URLSearchParams\<close> writes. They are parameters of the model.
\<close>

datatype engine_fault =
    ReadOfNullish jsstring    \<comment> \<open>reading that property of \<open>null\<close> or \<open>undefined\<close>\<close>
  | NotAFunction jsstring     \<comment> \<open>calling that property, which is not a function\<close>
  | NoPrimitive               \<comment> \<open>an object that converts to no primitive\<close>

record platform =
  NumberToString :: "number \<Rightarrow> jsstring"
  zod_message :: "zod_issue list \<Rightarrow> jsstring"
  fault_message :: "engine_fault \<Rightarrow> jsstring"
  abort_message :: jsstring
  search_params :: "(jsstring \<times> jsstring) list \<Rightarrow> jsstring"

definition fault :: "platform \<Rightarrow> engine_fault \<Rightarrow> js_error" where
  "fault P f = TypeError (fault_message P f)"

text \<open>\<open>err.message\<close>\<close>

fun message :: "platform \<Rightarrow> js_error \<Rightarrow> jsstring" where
  "message P (JsError n m) = m"
| "message P (ZodError issues) = zod_message P issues"

text \<open>
  \<open>String(err)\<close>: \<open>Error.prototype.toString\<close> joins name and message, leaving out an
  empty one; a ZodError prints its message.
\<close>

fun error_toString :: "platform \<Rightarrow> js_error \<Rightarrow> jsstring" where
  "error_toString P (JsError n m) =
     (if n = [] then m else if m = [] then n else n @ lit '': '' @ m)"
| "error_toString P (ZodError issues) = zod_message P issues"

text \<open>\<open>String(err.message || err)\<close>, the text every handler reports.\<close>

definition error_text :: "platform \<Rightarrow> js_error \<Rightarrow> jsstring" where
  "error_text P err = (if message P err \<noteq> [] then message P err else error_toString P err)"

section \<open>Reading properties and converting to strings\<close>

text \<open>An own property of an object; \<open>undefined\<close> when there is none.\<close>

definition get_own :: "(jsstring \<times> jsval) list \<Rightarrow> jsstring \<Rightarrow> jsval" where
  "get_own fs k = (case map_of fs k of None \<Rightarrow> JUndefined | Some v \<Rightarrow> v)"

text \<open>
  \<open>v.k\<close>, for a key \<open>k\<close> that no built-in prototype defines (all keys the
  source reads, \<open>map\<close> on a non-array included): reading from \<open>null\<close> or \<open>undefined\<close>
  throws, an object yields its own property, any other value yields \<open>undefined\<close>.
\<close>

fun get_prop :: "platform \<Rightarrow> jsval \<Rightarrow> jsstring \<Rightarrow> js_error + jsval" where
  "get_prop P JUndefined k = Inl (fault P (ReadOfNullish k))"
| "get_prop P JNull k = Inl (fault P (ReadOfNullish k))"
| "get_prop P (JObj fs) k = Inr (get_own fs k)"
| "get_prop P _ k = Inr JUndefined"

text \<open>\<open>v?.k\<close>\<close>

fun get_opt :: "jsval \<Rightarrow> jsstring \<Rightarrow> jsval" where
  "get_opt (JObj fs) k = get_own fs k"
| "get_opt _ k = JUndefined"

text \<open>Sequencing of computations that may throw.\<close>

definition and_then :: "'e + 'a \<Rightarrow> ('a \<Rightarrow> 'e + 'b) \<Rightarrow> 'e + 'b" where
  "and_then r f = (case r of Inl e \<Rightarrow> Inl e | Inr x \<Rightarrow> f x)"

text \<open>
  \<open>String(v)\<close>. An array joins its elements with commas, \<open>null\<close> and \<open>undefined\<close>
  elements as empty strings. A parsed object prints as \<open>[object Object]\<close>, unless it
  has an own \<open>toString\<close> property: that is data, not a function, and the conversion
  throws.
\<close>

fun ToString :: "platform \<Rightarrow> jsval \<Rightarrow> js_error + jsstring"
  and join :: "platform \<Rightarrow> jsval list \<Rightarrow> js_error + jsstring" where
  "ToString P JUndefined = Inr (lit ''undefined'')"
| "ToString P JNull = Inr (lit ''null'')"
| "ToString P (JBool b) = Inr (if b then lit ''true'' else lit ''false'')"
| "ToString P (JNum n) = Inr (NumberToString P n)"
| "ToString P (JStr s) = Inr s"
| "ToString P (JArr xs) = join P xs"
| "ToString P (JObj fs) =
     (if lit ''toString'' \<in> set (map fst fs) then Inl (fault P NoPrimitive)
      else Inr (lit ''[object Object]''))"
| "join P [] = Inr []"
| "join P (x # xs) =
     and_then (if x = JUndefined \<or> x = JNull then Inr [] else ToString P x)
       (\<lambda>a. if xs = [] then Inr a
            else and_then (join P xs) (\<lambda>b. Inr (a @ lit '','' @ b)))"

text \<open>The decimal digits of a non-negative integer, as a template literal prints it.\<close>

function decimal :: "nat \<Rightarrow> jsstring" where
  "decimal n =
     (if n < 10 then [of_nat (48 + n)]
      else decimal (n div 10) @ [of_nat (48 + n mod 10)])"
  by pat_completeness auto
termination
  by (relation "measure id") auto

declare decimal.simps [simp del]

text \<open>
  What \<open>JSON.stringify\<close> writes for a value: a property whose value is \<open>undefined\<close>
  is left out, an \<open>undefined\<close> array element and a number that is not finite become
  \<open>null\<close>.
\<close>

fun wire :: "jsval \<Rightarrow> jsval"
  and wire_elem :: "jsval \<Rightarrow> jsval"
  and wire_props :: "(jsstring \<times> jsval) list \<Rightarrow> (jsstring \<times> jsval) list" where
  "wire (JArr xs) = JArr (map wire_elem xs)"
| "wire (JObj fs) = JObj (wire_props fs)"
| "wire (JNum (Fin q)) = JNum (Fin q)"
| "wire (JNum _) = JNull"
| "wire v = v"
| "wire_elem v = (if v = JUndefined then JNull else wire v)"
| "wire_props [] = []"
| "wire_props ((k, v) # fs) =
     (if v = JUndefined then wire_props fs else (k, wire v) # wire_props fs)"

section \<open>The schema validator\<close>

text \<open>
  The combinators of the zod package that the source uses, as a datatype, and their
  meaning: \<open>zparse\<close> returns the parsed value or the list of all issues found.
  \<open>z.string().min(8)\<close> is \<open>ZString [StrMin 8]\<close>, and so on: the checks of a string or
  number schema are listed in the order of the method chain.
\<close>

datatype string_check = StrMin nat | StrRegex "jsstring \<Rightarrow> bool"

datatype number_check = NumInt | NumMin rat | NumMax rat

datatype zschema =
    ZString "string_check list"
  | ZNumber "number_check list"
  | ZBoolean
  | ZAny
  | ZRecord zschema
  | ZOptional zschema
  | ZDefault zschema jsval
  | ZObject "(jsstring \<times> zschema) list"

text \<open>The regular expression \<open>/^\d+$/\<close>: one or more of the digits 0 to 9, nothing else.\<close>

definition is_digit :: "code_unit \<Rightarrow> bool" where
  "is_digit u = (48 \<le> u \<and> u \<le> 57)"

definition digits_only :: "jsstring \<Rightarrow> bool" where
  "digits_only s = (s \<noteq> [] \<and> list_all is_digit s)"

fun string_issue :: "jsstring \<Rightarrow> string_check \<Rightarrow> zod_issue list" where
  "string_issue s (StrMin n) = (if length s < n then [Issue [] too_small] else [])"
| "string_issue s (StrRegex re) = (if \<not> re s then [Issue [] invalid_string] else [])"

text \<open>\<open>Number.isInteger\<close> and the comparisons \<open><\<close> and \<open>></\<close> of a number with a bound.\<close>

fun isInteger :: "number \<Rightarrow> bool" where
  "isInteger (Fin q) = (of_int \<lfloor>q\<rfloor> = q)"
| "isInteger _ = False"

fun num_less :: "number \<Rightarrow> rat \<Rightarrow> bool" where
  "num_less (Fin q) b = (q < b)"
| "num_less NegInf b = True"
| "num_less _ b = False"

fun num_greater :: "number \<Rightarrow> rat \<Rightarrow> bool" where
  "num_greater (Fin q) b = (q > b)"
| "num_greater PosInf b = True"
| "num_greater _ b = False"

fun number_issue :: "number \<Rightarrow> number_check \<Rightarrow> zod_issue list" where
  "number_issue n NumInt = (if \<not> isInteger n then [Issue [] invalid_type] else [])"
| "number_issue n (NumMin b) = (if num_less n b then [Issue [] too_small] else [])"
| "number_issue n (NumMax b) = (if num_greater n b then [Issue [] too_big] else [])"

text \<open>An issue found in the field \<open>k\<close> of an object has \<open>k\<close> in front of its path.\<close>

definition under_key :: "jsstring \<Rightarrow> zod_issue \<Rightarrow> zod_issue" where
  "under_key k i = Issue (k # issue_path i) (issue_code i)"

text \<open>
  The results of the fields of an object, merged: all issues, in the order of the
  fields; without issues, the object of the parsed values. A field whose value is
  \<open>undefined\<close> is set only if the input has the key (the list \<open>present\<close>).
\<close>

fun merge_issues :: "(jsstring \<times> (zod_issue list + jsval)) list \<Rightarrow> zod_issue list" where
  "merge_issues [] = []"
| "merge_issues ((k, Inl is) # rs) = map (under_key k) is @ merge_issues rs"
| "merge_issues ((k, Inr v) # rs) = merge_issues rs"

fun merge_values ::
  "jsstring list \<Rightarrow> (jsstring \<times> (zod_issue list + jsval)) list \<Rightarrow> (jsstring \<times> jsval) list" where
  "merge_values present [] = []"
| "merge_values present ((k, Inl is) # rs) = merge_values present rs"
| "merge_values present ((k, Inr v) # rs) =
     (if v \<noteq> JUndefined \<or> k \<in> set present then (k, v) # merge_values present rs
      else merge_values present rs)"

definition merge_object ::
  "jsstring list \<Rightarrow> (jsstring \<times> (zod_issue list + jsval)) list \<Rightarrow> zod_issue list + jsval" where
  "merge_object present rs =
     (if merge_issues rs = [] then Inr (JObj (merge_values present rs))
      else Inl (merge_issues rs))"

fun zparse :: "zschema \<Rightarrow> jsval \<Rightarrow> zod_issue list + jsval" where
  "zparse (ZString checks) v =
     (case v of
        JStr s \<Rightarrow>
          (if concat (map (string_issue s) checks) = [] then Inr v
           else Inl (concat (map (string_issue s) checks)))
      | _ \<Rightarrow> Inl [Issue [] invalid_type])"
| "zparse (ZNumber checks) v =
     (case v of
        JNum n \<Rightarrow>
          (if n = NaN then Inl [Issue [] invalid_type]
           else if concat (map (number_issue n) checks) = [] then Inr v
           else Inl (concat (map (number_issue n) checks)))
      | _ \<Rightarrow> Inl [Issue [] invalid_type])"
| "zparse ZBoolean v =
     (case v of JBool b \<Rightarrow> Inr v | _ \<Rightarrow> Inl [Issue [] invalid_type])"
| "zparse ZAny v = Inr v"
| "zparse (ZRecord vs) v =
     (case v of
        JObj fs \<Rightarrow> merge_object (map fst fs) (map (\<lambda>(k, x). (k, zparse vs x)) fs)
      | _ \<Rightarrow> Inl [Issue [] invalid_type])"
| "zparse (ZOptional inner) v =
     (if v = JUndefined then Inr JUndefined else zparse inner v)"
| "zparse (ZDefault inner d) v =
     zparse inner (if v = JUndefined then d else v)"
| "zparse (ZObject shape) v =
     (case v of
        JObj fs \<Rightarrow>
          merge_object (map fst fs) (map (\<lambda>(k, s). (k, zparse s (get_own fs k))) shape)
      | _ \<Rightarrow> Inl [Issue [] invalid_type])"

text \<open>\<open>schema.parse(v)\<close>: the parsed value, or a ZodError thrown with the issues.\<close>

definition schema_parse :: "zschema \<Rightarrow> jsval \<Rightarrow> js_error + jsval" where
  "schema_parse s v = (case zparse s v of Inl is \<Rightarrow> Inl (ZodError is) | Inr d \<Rightarrow> Inr d)"

text \<open>The two schemas of the source.\<close>

definition QuoteBody :: zschema where
  "QuoteBody = ZObject
     [(lit ''inputMint'', ZString [StrMin 8]),
      (lit ''outputMint'', ZString [StrMin 8]),
      (lit ''amount'', ZString [StrRegex digits_only]),
      (lit ''slippageBps'', ZDefault (ZNumber [NumInt, NumMin 1, NumMax 1000]) (JNum (Fin 50))),
      (lit ''onlyDirectRoutes'', ZDefault (ZOptional ZBoolean) (JBool False))]"

definition SwapBody :: zschema where
  "SwapBody = ZObject
     [(lit ''userPublicKey'', ZString [StrMin 32]),
      (lit ''quoteResponse'', ZRecord ZAny),
      (lit ''wrapAndUnwrapSol'', ZDefault (ZOptional ZBoolean) (JBool True)),
      (lit ''useSharedAccounts'', ZDefault (ZOptional ZBoolean) (JBool True)),
      (lit ''dynamicComputeUnitLimit'', ZDefault (ZOptional ZBoolean) (JBool True)),
      (lit ''prioritizationFeeLamports'',
         ZDefault (ZOptional (ZNumber [NumInt, NumMin 0])) (JNum (Fin 0)))]"

section \<open>Configuration\<close>

text \<open>
  The environment variables the source reads, each unset (\<open>None\<close>) or set to a string.
  \<open>process.env.X || d\<close> falls back to \<open>d\<close> when the variable is unset or empty.
\<close>

record env =
  env_APP_NAME :: "jsstring option"
  env_JUPITER_BASE :: "jsstring option"
  env_CORS_ORIGINS :: "jsstring option"

definition env_or :: "jsstring option \<Rightarrow> jsstring \<Rightarrow> jsstring" where
  "env_or x d = (case x of None \<Rightarrow> d | Some s \<Rightarrow> if s \<noteq> [] then s else d)"

definition APP_NAME :: "env \<Rightarrow> jsstring" where
  "APP_NAME E = env_or (env_APP_NAME E) (lit ''zkChan Backend'')"

definition JUPITER_BASE :: "env \<Rightarrow> jsstring" where
  "JUPITER_BASE E = env_or (env_JUPITER_BASE E) (lit ''https://quote-api.jup.ag'')"

text \<open>\<open>s.split(",")\<close>: the pieces between the commas; one empty piece for the empty string.\<close>

fun split_on :: "'a \<Rightarrow> 'a list \<Rightarrow> 'a list list" where
  "split_on c [] = [[]]"
| "split_on c (x # xs) =
     (if x = c then [] # split_on c xs
      else (case split_on c xs of
              [] \<Rightarrow> [[x]]
            | p # ps \<Rightarrow> (x # p) # ps))"

text \<open>\<open>s.trim()\<close> removes white space and line terminators at both ends.\<close>

definition is_space :: "code_unit \<Rightarrow> bool" where
  "is_space u =
     (u \<in> set [0x09, 0x0A, 0x0B, 0x0C, 0x0D, 0x20, 0xA0, 0x1680, 0x2028, 0x2029,
                0x202F, 0x205F, 0x3000, 0xFEFF]
      \<or> (0x2000 \<le> u \<and> u \<le> 0x200A))"

definition trim :: "jsstring \<Rightarrow> jsstring" where
  "trim s = rev (dropWhile is_space (rev (dropWhile is_space s)))"

definition envOrigins :: "env \<Rightarrow> jsstring list" where
  "envOrigins E =
     filter (\<lambda>s. s \<noteq> []) (map trim (split_on 0x2C (env_or (env_CORS_ORIGINS E) [])))"

definition allowedOrigins :: "env \<Rightarrow> jsstring list" where
  "allowedOrigins E =
     (if envOrigins E \<noteq> [] then envOrigins E else [lit ''https://zk-chan.fun''])"

section \<open>The upstream client\<close>

text \<open>
  An outbound call is the URL and the \<open>init\<close> argument of \<open>fetch\<close>; the body of an
  \<open>init\<close> is the value that \<open>JSON.stringify\<close> serialises.
\<close>

datatype http_method = GET | POST

datatype fetch_init =
  Init (init_method: http_method) (init_headers: "(jsstring \<times> jsstring) list") (init_body: jsval)

datatype upstream_call = Call (call_url: jsstring) (call_init: "fetch_init option")

text \<open>
  What the network does with a call: \<open>fetch\<close> rejects (the upstream is unreachable),
  nothing arrives within \<open>FETCH_TIMEOUT_MS\<close> and the timer aborts the call, or a
  response arrives with a status and a body; the body is \<open>None\<close> when \<open>r.json()\<close>
  rejects.
\<close>

datatype fetch_outcome =
    Unreachable js_error
  | NoResponseInTime
  | Responded nat "jsval option"

type_synonym network = "upstream_call \<Rightarrow> fetch_outcome"

text \<open>\<open>r.ok\<close>\<close>

definition r_ok :: "nat \<Rightarrow> bool" where
  "r_ok st = (200 \<le> st \<and> st \<le> 299)"

text \<open>The AbortError with which an aborted \<open>fetch\<close> rejects.\<close>

definition AbortError :: "platform \<Rightarrow> js_error" where
  "AbortError P = JsError (lit ''AbortError'') (abort_message P)"

text \<open>\<open>new Error(v)\<close>: the message is \<open>String(v)\<close>.\<close>

definition new_Error :: "platform \<Rightarrow> jsval \<Rightarrow> js_error" where
  "new_Error P v = (case ToString P v of Inl e \<Rightarrow> e | Inr m \<Rightarrow> Error m)"

text \<open>\<open>r.json().catch(() => ({}))\<close>\<close>

definition json_or_empty :: "jsval option \<Rightarrow> jsval" where
  "json_or_empty b = (case b of None \<Rightarrow> JObj [] | Some v \<Rightarrow> v)"

definition fetchJSON ::
  "platform \<Rightarrow> network \<Rightarrow> jsstring \<Rightarrow> fetch_init option \<Rightarrow> js_error + jsval" where
  "fetchJSON P net url init =
     (case net (Call url init) of
        Unreachable err \<Rightarrow> Inl err
      | NoResponseInTime \<Rightarrow> Inl (AbortError P)
      | Responded st b \<Rightarrow>
          (let js = json_or_empty b in
           if \<not> r_ok st then
             Inl (new_Error P
                    (js_or (get_opt js (lit ''error''))
                           (JStr (lit ''Fetch failed: '' @ decimal st))))
           else Inr js))"

section \<open>Routes\<close>

text \<open>
  A response is its status and what was sent: \<open>JsonBody v\<close> is \<open>res.json(v)\<close> (the
  client receives \<open>wire v\<close>), \<open>TextBody s\<close> is \<open>res.send(s)\<close>, and \<open>OwnBody\<close> is a
  body that a package writes by itself.
\<close>

datatype resp_body = JsonBody jsval | TextBody jsstring | OwnBody

record response =
  status :: nat
  body :: resp_body

definition json_reply :: "nat \<Rightarrow> jsval \<Rightarrow> response" where
  "json_reply st v = \<lparr>status = st, body = JsonBody v\<rparr>"

text \<open>\<open>{ ok:false, error: String(err.message || err) }\<close>\<close>

definition fail_body :: "platform \<Rightarrow> js_error \<Rightarrow> jsval" where
  "fail_body P err = JObj [(lit ''ok'', JBool False), (lit ''error'', JStr (error_text P err))]"

text \<open>
  A handler returns the outbound calls it made, in order, and its response. The body of
  each \<open>try\<close> block is a function of its own (\<open>_try\<close>) that returns the response or the
  error thrown; the handler adds the \<open>catch\<close>.
\<close>

definition root :: "env \<Rightarrow> response" where
  "root E = \<lparr>status = 200, body = TextBody (APP_NAME E @ lit '' is running'')\<rparr>"

text \<open>\<open>now\<close> is \<open>new Date().toISOString()\<close>.\<close>

definition health :: "env \<Rightarrow> jsstring \<Rightarrow> response" where
  "health E now =
     json_reply 200
       (JObj [(lit ''ok'', JBool True), (lit ''service'', JStr (APP_NAME E)),
              (lit ''time'', JStr now)])"

subsection \<open>GET /api/tokens\<close>

definition tokens_url :: jsstring where
  "tokens_url = lit ''https://token.jup.ag/all''"

text \<open>The callback of \<open>list.map\<close>.\<close>

definition small_token :: "platform \<Rightarrow> jsval \<Rightarrow> js_error + jsval" where
  "small_token P t =
     and_then (get_prop P t (lit ''address'')) (\<lambda>address.
     and_then (get_prop P t (lit ''symbol'')) (\<lambda>symbol.
     and_then (get_prop P t (lit ''name'')) (\<lambda>name.
     and_then (get_prop P t (lit ''decimals'')) (\<lambda>decimals.
     and_then (get_prop P t (lit ''tags'')) (\<lambda>tags.
       Inr (JObj [(lit ''address'', address), (lit ''symbol'', symbol), (lit ''name'', name),
                  (lit ''decimals'', decimals), (lit ''tags'', js_or tags (JArr []))]))))))"

fun map_throwing :: "('a \<Rightarrow> 'e + 'b) \<Rightarrow> 'a list \<Rightarrow> 'e + 'b list" where
  "map_throwing f [] = Inr []"
| "map_throwing f (x # xs) =
     and_then (f x) (\<lambda>y. and_then (map_throwing f xs) (\<lambda>ys. Inr (y # ys)))"

text \<open>
  \<open>list.map(f)\<close> on a parsed value: only an array has the method; \<open>null\<close> has no
  properties at all.
\<close>

fun list_map :: "platform \<Rightarrow> (jsval \<Rightarrow> js_error + jsval) \<Rightarrow> jsval \<Rightarrow> js_error + jsval" where
  "list_map P f (JArr ts) = and_then (map_throwing f ts) (\<lambda>ys. Inr (JArr ys))"
| "list_map P f JNull = Inl (fault P (ReadOfNullish (lit ''map'')))"
| "list_map P f JUndefined = Inl (fault P (ReadOfNullish (lit ''map'')))"
| "list_map P f _ = Inl (fault P (NotAFunction (lit ''map'')))"

definition tokens_try :: "platform \<Rightarrow> network \<Rightarrow> js_error + response" where
  "tokens_try P net =
     and_then (fetchJSON P net tokens_url None) (\<lambda>list.
     and_then (list_map P (small_token P) list) (\<lambda>small.
       Inr (json_reply 200 (JObj [(lit ''ok'', JBool True), (lit ''tokens'', small)]))))"

definition api_tokens :: "platform \<Rightarrow> network \<Rightarrow> upstream_call list \<times> response" where
  "api_tokens P net =
     ([Call tokens_url None],
      case tokens_try P net of
        Inl err \<Rightarrow> json_reply 500 (fail_body P err)
      | Inr r \<Rightarrow> r)"

subsection \<open>POST /api/quote\<close>

text \<open>
  The URL of the quote call, from the validated data. \<open>URLSearchParams\<close> converts every
  value to a string.
\<close>

definition quote_url :: "platform \<Rightarrow> env \<Rightarrow> jsval \<Rightarrow> js_error + jsstring" where
  "quote_url P E data =
     and_then (ToString P (get_opt data (lit ''inputMint''))) (\<lambda>inputMint.
     and_then (ToString P (get_opt data (lit ''outputMint''))) (\<lambda>outputMint.
     and_then (ToString P (get_opt data (lit ''amount''))) (\<lambda>amount.
     and_then (ToString P (get_opt data (lit ''slippageBps''))) (\<lambda>slippageBps.
     and_then (ToString P (JBool (truthy (get_opt data (lit ''onlyDirectRoutes''))))) (\<lambda>onlyDirectRoutes.
       Inr (JUPITER_BASE E @ lit ''/v6/quote?'' @
            search_params P
              [(lit ''inputMint'', inputMint), (lit ''outputMint'', outputMint),
               (lit ''amount'', amount), (lit ''slippageBps'', slippageBps),
               (lit ''onlyDirectRoutes'', onlyDirectRoutes)]))))))"

definition quote_try ::
  "platform \<Rightarrow> env \<Rightarrow> network \<Rightarrow> jsval \<Rightarrow> upstream_call list \<times> (js_error + response)" where
  "quote_try P E net req_body =
     (case and_then (schema_parse QuoteBody req_body) (quote_url P E) of
        Inl err \<Rightarrow> ([], Inl err)
      | Inr url \<Rightarrow>
          ([Call url None],
           and_then (fetchJSON P net url None) (\<lambda>quote.
             Inr (json_reply 200 (JObj [(lit ''ok'', JBool True), (lit ''quote'', quote)])))))"

definition api_quote ::
  "platform \<Rightarrow> env \<Rightarrow> network \<Rightarrow> jsval \<Rightarrow> upstream_call list \<times> response" where
  "api_quote P E net req_body =
     (case quote_try P E net req_body of
        (calls, Inl err) \<Rightarrow> (calls, json_reply 400 (fail_body P err))
      | (calls, Inr r) \<Rightarrow> (calls, r))"

subsection \<open>POST /api/swap\<close>

definition swap_init :: "jsval \<Rightarrow> fetch_init" where
  "swap_init data =
     Init POST [(lit ''Content-Type'', lit ''application/json'')]
       (JObj [(lit ''quoteResponse'', get_opt data (lit ''quoteResponse'')),
              (lit ''userPublicKey'', get_opt data (lit ''userPublicKey'')),
              (lit ''wrapAndUnwrapSol'', get_opt data (lit ''wrapAndUnwrapSol'')),
              (lit ''dynamicComputeUnitLimit'', get_opt data (lit ''dynamicComputeUnitLimit'')),
              (lit ''prioritizationFeeLamports'', get_opt data (lit ''prioritizationFeeLamports'')),
              (lit ''useSharedAccounts'', get_opt data (lit ''useSharedAccounts''))])"

definition swap_url :: "env \<Rightarrow> jsstring" where
  "swap_url E = JUPITER_BASE E @ lit ''/v6/swap''"

definition swap_try ::
  "platform \<Rightarrow> env \<Rightarrow> network \<Rightarrow> jsval \<Rightarrow> upstream_call list \<times> (js_error + response)" where
  "swap_try P E net req_body =
     (case schema_parse SwapBody req_body of
        Inl err \<Rightarrow> ([], Inl err)
      | Inr data \<Rightarrow>
          ([Call (swap_url E) (Some (swap_init data))],
           and_then (fetchJSON P net (swap_url E) (Some (swap_init data))) (\<lambda>js.
           and_then (get_prop P js (lit ''swapTransaction'')) (\<lambda>swapTransaction.
             Inr (json_reply 200
                    (JObj [(lit ''ok'', JBool True), (lit ''swapTransaction'', swapTransaction)]))))))"

definition api_swap ::
  "platform \<Rightarrow> env \<Rightarrow> network \<Rightarrow> jsval \<Rightarrow> upstream_call list \<times> response" where
  "api_swap P E net req_body =
     (case swap_try P E net req_body of
        (calls, Inl err) \<Rightarrow> (calls, json_reply 400 (fail_body P err))
      | (calls, Inr r) \<Rightarrow> (calls, r))"

section \<open>The middleware chain\<close>

text \<open>
  The route that the router resolves from method and path. \<open>Preflight\<close> is an
  \<open>OPTIONS\<close> request, which the cors package answers itself; \<open>NoRoute api\<close> is a request
  that matches no route, \<open>api\<close> telling whether its path is under \<open>/api/\<close>.
\<close>

datatype route = Root | Health | ApiTokens | ApiQuote | ApiSwap | Preflight | NoRoute bool

fun under_api :: "route \<Rightarrow> bool" where
  "under_api ApiTokens = True"
| "under_api ApiQuote = True"
| "under_api ApiSwap = True"
| "under_api (NoRoute api) = api"
| "under_api _ = False"

text \<open>
  A request, as the chain sees it: the \<open>Origin\<close> header if there is one, the outcome of
  \<open>express.json\<close> (the parsed body, or the error it passes on for a malformed or too
  large body), and the route.
\<close>

record request =
  origin_header :: "jsstring option"
  parsed_body :: "js_error + jsval"
  target :: route

text \<open>
  The world around one request: the network, the verdict of the rate limiter for this
  client at this moment, and the clock.
\<close>

record world =
  w_net :: network
  w_over_limit :: bool
  w_now :: jsstring

text \<open>
  The \<open>origin\<close> callback given to cors: the error passed to \<open>cb\<close>, or \<open>true\<close>. A missing
  header is \<open>undefined\<close>, and \<open>!origin\<close> holds for it and for the empty string.
\<close>

definition cors_origin :: "env \<Rightarrow> jsstring option \<Rightarrow> js_error + bool" where
  "cors_origin E origin =
     (case origin of
        None \<Rightarrow> Inr True
      | Some s \<Rightarrow>
          if s = [] \<or> s \<in> set (allowedOrigins E) then Inr True
          else Inl (Error (lit ''CORS: origin not allowed'')))"

text \<open>\<open>/CORS/.test(s)\<close>: the text occurs somewhere in \<open>s\<close>.\<close>

fun starts_with :: "'a list \<Rightarrow> 'a list \<Rightarrow> bool" where
  "starts_with [] s = True"
| "starts_with (p # ps) [] = False"
| "starts_with (p # ps) (x # xs) = (p = x \<and> starts_with ps xs)"

fun occurs_in :: "'a list \<Rightarrow> 'a list \<Rightarrow> bool" where
  "occurs_in p [] = (p = [])"
| "occurs_in p (x # xs) = (starts_with p (x # xs) \<or> occurs_in p xs)"

text \<open>The error middleware at the end of the chain.\<close>

definition error_middleware :: "platform \<Rightarrow> js_error \<Rightarrow> response" where
  "error_middleware P err =
     (if occurs_in (lit ''CORS'') (error_toString P err)
      then json_reply 403 (fail_body P err)
      else json_reply 500
             (JObj [(lit ''ok'', JBool False), (lit ''error'', JStr (lit ''Internal server error''))]))"

text \<open>The answers that packages give by themselves.\<close>

definition preflight_reply :: response where
  "preflight_reply = \<lparr>status = 204, body = OwnBody\<rparr>"

definition rate_limit_reply :: response where
  "rate_limit_reply = \<lparr>status = 429, body = OwnBody\<rparr>"

definition not_found_reply :: response where
  "not_found_reply = \<lparr>status = 404, body = OwnBody\<rparr>"

text \<open>The routes, in the order of their registration.\<close>

fun dispatch ::
  "platform \<Rightarrow> env \<Rightarrow> world \<Rightarrow> route \<Rightarrow> jsval \<Rightarrow> upstream_call list \<times> response" where
  "dispatch P E w Root req_body = ([], root E)"
| "dispatch P E w Health req_body = ([], health E (w_now w))"
| "dispatch P E w ApiTokens req_body = api_tokens P (w_net w)"
| "dispatch P E w ApiQuote req_body = api_quote P E (w_net w) req_body"
| "dispatch P E w ApiSwap req_body = api_swap P E (w_net w) req_body"
| "dispatch P E w _ req_body = ([], not_found_reply)"

text \<open>
  The chain, in the order of the \<open>app.use\<close> calls: \<open>express.json\<close>, cors, the rate limiter
  on \<open>/api/\<close>, the routes; an error passed on by a middleware goes to the error
  middleware. (helmet, compression and morgan set headers, compress and log; they
  decide nothing.)
\<close>

definition serve :: "platform \<Rightarrow> env \<Rightarrow> world \<Rightarrow> request \<Rightarrow> upstream_call list \<times> response" where
  "serve P E w rq =
     (case parsed_body rq of
        Inl err \<Rightarrow> ([], error_middleware P err)
      | Inr req_body \<Rightarrow>
          (case cors_origin E (origin_header rq) of
             Inl err \<Rightarrow> ([], error_middleware P err)
           | Inr _ \<Rightarrow>
               if target rq = Preflight then ([], preflight_reply)
               else if under_api (target rq) \<and> w_over_limit w then ([], rate_limit_reply)
               else dispatch P E w (target rq) req_body))"

section \<open>Concrete inputs\<close>

text \<open>
  One platform, for evaluating the model on concrete inputs. Integers print in decimal,
  as in JavaScript; the printing of fractions and the wording of the messages are this
  instance's own. Every theorem below holds for all platforms.
\<close>

definition print_number :: "number \<Rightarrow> jsstring" where
  "print_number n =
     (case n of
        Fin q \<Rightarrow> (if q < 0 then lit ''-'' else []) @ decimal (nat \<bar>\<lfloor>q\<rfloor>\<bar>)
      | PosInf \<Rightarrow> lit ''Infinity''
      | NegInf \<Rightarrow> lit ''-Infinity''
      | NaN \<Rightarrow> lit ''NaN'')"

fun print_fault :: "engine_fault \<Rightarrow> jsstring" where
  "print_fault (ReadOfNullish k) = lit ''Cannot read properties of null (reading '' @ k @ lit '')''"
| "print_fault (NotAFunction k) = k @ lit '' is not a function''"
| "print_fault NoPrimitive = lit ''Cannot convert object to primitive value''"

fun print_params :: "(jsstring \<times> jsstring) list \<Rightarrow> jsstring" where
  "print_params [] = []"
| "print_params [(k, v)] = k @ lit ''='' @ v"
| "print_params ((k, v) # kvs) = k @ lit ''='' @ v @ lit ''&'' @ print_params kvs"

definition sample_platform :: platform where
  "sample_platform =
     \<lparr>NumberToString = print_number,
      zod_message = (\<lambda>issues. lit ''Invalid input''),
      fault_message = print_fault,
      abort_message = lit ''This operation was aborted'',
      search_params = print_params\<rparr>"

text \<open>No environment variable set: every setting has its default.\<close>

definition default_env :: env where
  "default_env = \<lparr>env_APP_NAME = None, env_JUPITER_BASE = None, env_CORS_ORIGINS = None\<rparr>"

text \<open>Networks: one that is unreachable, one that never answers, one that always answers the same.\<close>

definition net_down :: network where
  "net_down = (\<lambda>c. Unreachable (TypeError (lit ''fetch failed'')))"

definition net_silent :: network where
  "net_silent = (\<lambda>c. NoResponseInTime)"

definition net_replying :: "nat \<Rightarrow> jsval option \<Rightarrow> network" where
  "net_replying st b = (\<lambda>c. Responded st b)"

definition quiet_world :: "network \<Rightarrow> world" where
  "quiet_world n = \<lparr>w_net = n, w_over_limit = False, w_now = lit ''2024-01-01T00:00:00.000Z''\<rparr>"

text \<open>Request bodies.\<close>

definition sol_mint :: jsstring where
  "sol_mint = lit ''So11111111111111111111111111111111111111112''"

definition usdc_mint :: jsstring where
  "usdc_mint = lit ''EPjFWdd5AufqSSqeM2qN1xzybapC8G4wEGGkZwyTDt1v''"

definition quote_fields :: "(jsstring \<times> jsval) list" where
  "quote_fields =
     [(lit ''inputMint'', JStr sol_mint), (lit ''outputMint'', JStr usdc_mint),
      (lit ''amount'', JStr (lit ''1000000''))]"

definition good_quote :: jsval where
  "good_quote = JObj quote_fields"

definition quote_with :: "jsstring \<Rightarrow> jsval \<Rightarrow> jsval" where
  "quote_with k v = JObj ((k, v) # quote_fields)"

definition good_data :: jsval where
  "good_data =
     JObj [(lit ''inputMint'', JStr sol_mint), (lit ''outputMint'', JStr usdc_mint),
           (lit ''amount'', JStr (lit ''1000000'')), (lit ''slippageBps'', JNum (Fin 50)),
           (lit ''onlyDirectRoutes'', JBool False)]"

definition a_quote :: jsval where
  "a_quote = JObj [(lit ''inAmount'', JStr (lit ''1000000'')), (lit ''outAmount'', JStr (lit ''152340''))]"

definition swap_with_key :: "jsstring \<Rightarrow> jsval" where
  "swap_with_key k = JObj [(lit ''userPublicKey'', JStr k), (lit ''quoteResponse'', a_quote)]"

definition a_wallet :: jsstring where
  "a_wallet = lit ''7xKXtg2CW87d97TXJSDpbD5jBkheTqA83TZRuJosgAsU''"

text \<open>Upstream payloads.\<close>

definition a_token :: jsval where
  "a_token =
     JObj [(lit ''address'', JStr sol_mint), (lit ''chainId'', JNum (Fin 101)),
           (lit ''decimals'', JNum (Fin 9)), (lit ''name'', JStr (lit ''Wrapped SOL'')),
           (lit ''symbol'', JStr (lit ''SOL'')), (lit ''logoURI'', JStr (lit ''https://x/sol.png''))]"

definition a_swap_payload :: jsval where
  "a_swap_payload =
     JObj [(lit ''swapTransaction'', JStr (lit ''AQAAAA=='')),
           (lit ''lastValidBlockHeight'', JNum (Fin 279632475))]"

text \<open>What validation makes of the sample requests, and the URL of the sample quote call.\<close>

definition good_quote_url :: jsstring where
  "good_quote_url =
     lit ''https://quote-api.jup.ag/v6/quote?inputMint=So11111111111111111111111111111111111111112&outputMint=EPjFWdd5AufqSSqeM2qN1xzybapC8G4wEGGkZwyTDt1v&amount=1000000&slippageBps=50&onlyDirectRoutes=false''"

definition good_swap_data :: jsval where
  "good_swap_data =
     JObj [(lit ''userPublicKey'', JStr a_wallet), (lit ''quoteResponse'', a_quote),
           (lit ''wrapAndUnwrapSol'', JBool True), (lit ''useSharedAccounts'', JBool True),
           (lit ''dynamicComputeUnitLimit'', JBool True),
           (lit ''prioritizationFeeLamports'', JNum (Fin 0))]"

text \<open>
  Requests: an origin outside the default allow-list, and the error that \<open>express.json\<close>
  passes on for the malformed body \<open>{bad\<close>.
\<close>

definition foreign_origin :: jsstring where
  "foreign_origin = lit ''https://evil.example''"

definition malformed_body :: js_error where
  "malformed_body =
     JsError (lit ''SyntaxError'') (lit ''Unexpected token b in JSON at position 1'')"

definition request_from :: "jsstring option \<Rightarrow> (js_error + jsval) \<Rightarrow> route \<Rightarrow> request" where
  "request_from h b r = \<lparr>origin_header = h, parsed_body = b, target = r\<rparr>"

section \<open>Vocabulary of the specification\<close>

text \<open>
  The conditions that the specification puts on the fields of a request, as it words
  them: a string made of decimal digits only, a string of fewer than \<open>n\<close> characters,
  a slippage that is an integer from 1 to 1000.
\<close>

definition digit_string :: "jsval \<Rightarrow> bool" where
  "digit_string v = (case v of JStr s \<Rightarrow> digits_only s | _ \<Rightarrow> False)"

definition short_string :: "nat \<Rightarrow> jsval \<Rightarrow> bool" where
  "short_string n v = (case v of JStr s \<Rightarrow> length s < n | _ \<Rightarrow> False)"

definition slippage_in_range :: "jsval \<Rightarrow> bool" where
  "slippage_in_range v =
     (case v of JNum (Fin q) \<Rightarrow> of_int \<lfloor>q\<rfloor> = q \<and> 1 \<le> q \<and> q \<le> 1000 | _ \<Rightarrow> False)"

text \<open>The number that a string of decimal digits denotes.\<close>

definition digits_value :: "jsstring \<Rightarrow> nat" where
  "digits_value s = foldl (\<lambda>acc u. 10 * acc + (unat u - 48)) 0 s"

section \<open>Properties of the values\<close>

lemma unat_of_char: "unat (of_char c :: code_unit) = of_char c"
proof -
  have "(of_char c :: nat) < 2 ^ LENGTH(16)"
    by (rule less_trans [OF nat_of_char_less_256]) simp
  then have "unat (of_nat (of_char c) :: code_unit) = of_char c"
    by (simp only: unat_of_nat mod_less)
  then show ?thesis
    by (simp only: of_nat_of_char)
qed

lemma lit_eq_iff [simp]: "lit a = lit b \<longleftrightarrow> a = b"
proof -
  have "inj (\<lambda>c::char. (of_char c :: code_unit))"
  proof (rule injI)
    fix x y :: char
    assume "(of_char x :: code_unit) = of_char y"
    then have "unat (of_char x :: code_unit) = unat (of_char y :: code_unit)"
      by simp
    then have "(of_char x :: nat) = of_char y"
      by (simp only: unat_of_char)
    then show "x = y"
      by simp
  qed
  then show ?thesis
    by (simp add: lit_def inj_map_eq_map)
qed

lemma lit_Nil_iff [simp]: "lit s = [] \<longleftrightarrow> s = []"
  by (simp add: lit_def)

lemma length_lit [simp]: "length (lit s) = length s"
  by (simp add: lit_def)

lemma zparse_issues_nonempty: "zparse s v = Inl is \<Longrightarrow> is \<noteq> []"
  by (induction s v rule: zparse.induct)
     (auto simp: merge_object_def split: jsval.splits if_splits)

lemma merge_issues_field:
  "(k, Inl is) \<in> set rs \<Longrightarrow> is \<noteq> [] \<Longrightarrow> merge_issues rs \<noteq> []"
  by (induction rs rule: merge_issues.induct) auto

section \<open>Rejection by the validator\<close>

text \<open>
  A field that fails makes the whole object fail, and a body that fails validation is
  answered with 400 before any outbound call.
\<close>

lemma object_rejects:
  assumes "(k, s) \<in> set shape" and "zparse s (get_opt v k) = Inl is"
  shows "\<exists>js. zparse (ZObject shape) v = Inl js"
proof (cases v)
  case (JObj fs)
  from assms(2) have ne: "is \<noteq> []"
    by (rule zparse_issues_nonempty)
  from assms JObj have "(k, Inl is) \<in> set (map (\<lambda>(k, s). (k, zparse s (get_own fs k))) shape)"
    by force
  then have "merge_issues (map (\<lambda>(k, s). (k, zparse s (get_own fs k))) shape) \<noteq> []"
    using ne by (rule merge_issues_field)
  with JObj show ?thesis
    by (simp add: merge_object_def)
qed simp_all

lemma api_quote_rejects:
  "zparse QuoteBody b = Inl is \<Longrightarrow>
     api_quote P E net b = ([], json_reply 400 (fail_body P (ZodError is)))"
  by (simp add: api_quote_def quote_try_def schema_parse_def and_then_def)

lemma api_swap_rejects:
  "zparse SwapBody b = Inl is \<Longrightarrow>
     api_swap P E net b = ([], json_reply 400 (fail_body P (ZodError is)))"
  unfolding api_swap_def swap_try_def schema_parse_def by simp

lemma quote_field_rejects:
  assumes "QuoteBody = ZObject shape" and "(k, s) \<in> set shape"
    and "zparse s (get_opt b k) = Inl is"
  shows "\<exists>issues. api_quote P E net b = ([], json_reply 400 (fail_body P (ZodError issues)))"
proof -
  from assms(2,3) obtain js where "zparse (ZObject shape) b = Inl js"
    using object_rejects by blast
  with assms(1) have "zparse QuoteBody b = Inl js"
    by simp
  then have "api_quote P E net b = ([], json_reply 400 (fail_body P (ZodError js)))"
    by (rule api_quote_rejects)
  then show ?thesis ..
qed

lemma swap_field_rejects:
  assumes "SwapBody = ZObject shape" and "(k, s) \<in> set shape"
    and "zparse s (get_opt b k) = Inl is"
  shows "\<exists>issues. api_swap P E net b = ([], json_reply 400 (fail_body P (ZodError issues)))"
proof -
  from assms(2,3) obtain js where "zparse (ZObject shape) b = Inl js"
    using object_rejects by blast
  with assms(1) have "zparse SwapBody b = Inl js"
    by simp
  then have "api_swap P E net b = ([], json_reply 400 (fail_body P (ZodError js)))"
    by (rule api_swap_rejects)
  then show ?thesis ..
qed

text \<open>
  Claim C3. A \<open>POST /api/quote\<close> request whose \<open>amount\<close> is not a string made only of
  decimal digits gets the status 400, with the validation error in the body, and the
  handler makes no outbound call. The empty string is rejected as well, and so is a body
  that is no object.
\<close>

theorem quote_amount_not_digits_rejected:
  assumes "\<not> digit_string (get_opt req_body (lit ''amount''))"
  shows "\<exists>issues. api_quote P E net req_body = ([], json_reply 400 (fail_body P (ZodError issues)))"
proof -
  obtain iss where "zparse (ZString [StrRegex digits_only]) (get_opt req_body (lit ''amount'')) = Inl iss"
    using assms by (cases "get_opt req_body (lit ''amount'')") (auto simp: digit_string_def)
  then show ?thesis
    by (rule quote_field_rejects [OF QuoteBody_def, rotated]) simp
qed

text \<open>The amount \<open>12x\<close>.\<close>

theorem quote_amount_not_digits_rejected_witness:
  "\<not> digit_string (get_opt (quote_with (lit ''amount'') (JStr (lit ''12x''))) (lit ''amount''))
   \<and> api_quote sample_platform default_env net_down (quote_with (lit ''amount'') (JStr (lit ''12x'')))
       = ([], json_reply 400 (JObj [(lit ''ok'', JBool False), (lit ''error'', JStr (lit ''Invalid input''))]))"
proof -
  have h: "\<not> digit_string (get_opt (quote_with (lit ''amount'') (JStr (lit ''12x''))) (lit ''amount''))"
    by (simp add: quote_with_def get_own_def digit_string_def digits_only_def is_digit_def lit_def)
  from quote_amount_not_digits_rejected [OF h, of sample_platform default_env net_down]
  show ?thesis using h
    by (auto simp: fail_body_def error_text_def sample_platform_def)
qed

text \<open>
  Claim C10. A \<open>POST /api/quote\<close> request in which \<open>inputMint\<close> or \<open>outputMint\<close> is a
  string of fewer than 8 characters gets the status 400, and the handler makes no
  outbound call.
\<close>

theorem quote_short_mint_rejected:
  assumes "short_string 8 (get_opt req_body (lit ''inputMint''))
         \<or> short_string 8 (get_opt req_body (lit ''outputMint''))"
  shows "\<exists>issues. api_quote P E net req_body = ([], json_reply 400 (fail_body P (ZodError issues)))"
proof -
  have short: "\<exists>iss. zparse (ZString [StrMin 8]) v = Inl iss" if "short_string 8 v" for v
    using that by (cases v) (auto simp: short_string_def)
  from assms show ?thesis
  proof
    assume "short_string 8 (get_opt req_body (lit ''inputMint''))"
    then obtain iss where "zparse (ZString [StrMin 8]) (get_opt req_body (lit ''inputMint'')) = Inl iss"
      using short by blast
    then show ?thesis
      by (rule quote_field_rejects [OF QuoteBody_def, rotated]) simp
  next
    assume "short_string 8 (get_opt req_body (lit ''outputMint''))"
    then obtain iss where "zparse (ZString [StrMin 8]) (get_opt req_body (lit ''outputMint'')) = Inl iss"
      using short by blast
    then show ?thesis
      by (rule quote_field_rejects [OF QuoteBody_def, rotated]) simp
  qed
qed

text \<open>The output mint \<open>USDC\<close>.\<close>

theorem quote_short_mint_rejected_witness:
  "short_string 8 (get_opt (quote_with (lit ''outputMint'') (JStr (lit ''USDC''))) (lit ''outputMint''))
   \<and> api_quote sample_platform default_env net_down (quote_with (lit ''outputMint'') (JStr (lit ''USDC'')))
       = ([], json_reply 400 (JObj [(lit ''ok'', JBool False), (lit ''error'', JStr (lit ''Invalid input''))]))"
proof -
  have h: "short_string 8 (get_opt (quote_with (lit ''outputMint'') (JStr (lit ''USDC''))) (lit ''outputMint''))"
    by (simp add: quote_with_def get_own_def short_string_def)
  from quote_short_mint_rejected [OF disjI2, OF h, of sample_platform default_env net_down]
  show ?thesis using h
    by (auto simp: fail_body_def error_text_def sample_platform_def)
qed

text \<open>
  Claim C8. A \<open>POST /api/swap\<close> request whose \<open>userPublicKey\<close> is a string of fewer
  than 32 characters gets the status 400 with the message of the validation error, and
  the handler makes no outbound call, whatever the \<open>quoteResponse\<close> is.
\<close>

theorem swap_short_key_rejected:
  assumes "short_string 32 (get_opt req_body (lit ''userPublicKey''))"
  shows "\<exists>issues. api_swap P E net req_body = ([], json_reply 400 (fail_body P (ZodError issues)))"
proof -
  obtain iss where "zparse (ZString [StrMin 32]) (get_opt req_body (lit ''userPublicKey'')) = Inl iss"
    using assms by (cases "get_opt req_body (lit ''userPublicKey'')") (auto simp: short_string_def)
  then show ?thesis
    by (rule swap_field_rejects [OF SwapBody_def, rotated]) simp
qed

text \<open>A key of 11 characters, with a quote object.\<close>

theorem swap_short_key_rejected_witness:
  "short_string 32 (get_opt (swap_with_key (lit ''tooShortKey'')) (lit ''userPublicKey''))
   \<and> get_opt (swap_with_key (lit ''tooShortKey'')) (lit ''quoteResponse'') = a_quote
   \<and> api_swap sample_platform default_env net_down (swap_with_key (lit ''tooShortKey''))
       = ([], json_reply 400 (JObj [(lit ''ok'', JBool False), (lit ''error'', JStr (lit ''Invalid input''))]))"
proof -
  have h: "short_string 32 (get_opt (swap_with_key (lit ''tooShortKey'')) (lit ''userPublicKey''))"
    by (simp add: swap_with_key_def get_own_def short_string_def)
  from swap_short_key_rejected [OF h, of sample_platform default_env net_down]
  show ?thesis using h
    by (auto simp: fail_body_def error_text_def sample_platform_def swap_with_key_def get_own_def)
qed

section \<open>Defaults of the quote schema\<close>

lemma get_own_Nil [simp]: "get_own [] k = JUndefined"
  by (simp add: get_own_def)

lemma get_own_Cons [simp]: "get_own ((k, v) # fs) k' = (if k' = k then v else get_own fs k')"
  by (simp add: get_own_def)

lemma slippage_field_rejects:
  assumes "v \<noteq> JUndefined" and "\<not> slippage_in_range v"
  shows "\<exists>iss. zparse (ZDefault (ZNumber [NumInt, NumMin 1, NumMax 1000]) (JNum (Fin 50))) v = Inl iss"
proof (cases v)
  case (JNum n)
  with assms(2) show ?thesis
    by (cases n) (auto simp: slippage_in_range_def)
qed (use assms in simp_all)

lemma quote_accepts:
  assumes "get_own fs (lit ''inputMint'') = JStr i" and "8 \<le> length i"
    and "get_own fs (lit ''outputMint'') = JStr out" and "8 \<le> length out"
    and "get_own fs (lit ''amount'') = JStr a" and "digits_only a"
    and "get_own fs (lit ''slippageBps'') = JUndefined"
    and "get_own fs (lit ''onlyDirectRoutes'') = d"
    and "d = JUndefined \<or> d = JBool True \<or> d = JBool False"
  shows "schema_parse QuoteBody (JObj fs) =
           Inr (JObj [(lit ''inputMint'', JStr i), (lit ''outputMint'', JStr out),
                      (lit ''amount'', JStr a), (lit ''slippageBps'', JNum (Fin 50)),
                      (lit ''onlyDirectRoutes'', if d = JUndefined then JBool False else d)])"
  using assms by (auto simp add: schema_parse_def QuoteBody_def merge_object_def)

lemma merge_values_extra_key:
  "(k, Inr JUndefined) \<notin> set rs \<Longrightarrow> merge_values (k # p) rs = merge_values p rs"
  by (induction p rs rule: merge_values.induct) auto

lemma absent_slippage_is_50:
  assumes "get_own fs (lit ''slippageBps'') = JUndefined"
  shows "schema_parse QuoteBody (JObj fs) =
         schema_parse QuoteBody (JObj ((lit ''slippageBps'', JNum (Fin 50)) # fs))"
  using assms by (simp add: schema_parse_def QuoteBody_def merge_object_def merge_values_extra_key)

lemma digits_1000000: "digits_only (lit ''1000000'')"
  by (simp add: digits_only_def is_digit_def lit_def)

text \<open>
  Claim C5. A \<open>POST /api/quote\<close> request whose \<open>slippageBps\<close> is present and is not an
  integer from 1 to 1000 gets the status 400, and no outbound call is made. A request
  without \<open>slippageBps\<close> is validated exactly as the same request with \<open>slippageBps\<close>
  50; when its other fields are valid, validation succeeds and the validated data has
  \<open>slippageBps\<close> 50.
\<close>

theorem slippage_range_and_default:
  "(get_opt req_body (lit ''slippageBps'') \<noteq> JUndefined
      \<and> \<not> slippage_in_range (get_opt req_body (lit ''slippageBps''))
    \<longrightarrow> (\<exists>issues. api_quote P E net req_body =
                      ([], json_reply 400 (fail_body P (ZodError issues)))))
   \<and> (get_own fs (lit ''slippageBps'') = JUndefined
    \<longrightarrow> schema_parse QuoteBody (JObj fs) =
          schema_parse QuoteBody (JObj ((lit ''slippageBps'', JNum (Fin 50)) # fs)))
   \<and> (get_own fs (lit ''slippageBps'') = JUndefined
        \<and> get_own fs (lit ''inputMint'') = JStr i \<and> 8 \<le> length i
        \<and> get_own fs (lit ''outputMint'') = JStr out \<and> 8 \<le> length out
        \<and> get_own fs (lit ''amount'') = JStr a \<and> digits_only a
        \<and> get_own fs (lit ''onlyDirectRoutes'') = d
        \<and> (d = JUndefined \<or> d = JBool True \<or> d = JBool False)
    \<longrightarrow> schema_parse QuoteBody (JObj fs) =
           Inr (JObj [(lit ''inputMint'', JStr i), (lit ''outputMint'', JStr out),
                      (lit ''amount'', JStr a), (lit ''slippageBps'', JNum (Fin 50)),
                      (lit ''onlyDirectRoutes'', if d = JUndefined then JBool False else d)]))"
proof (intro conjI impI)
  assume "get_opt req_body (lit ''slippageBps'') \<noteq> JUndefined
      \<and> \<not> slippage_in_range (get_opt req_body (lit ''slippageBps''))"
  then obtain iss where
    "zparse (ZDefault (ZNumber [NumInt, NumMin 1, NumMax 1000]) (JNum (Fin 50)))
       (get_opt req_body (lit ''slippageBps'')) = Inl iss"
    using slippage_field_rejects by blast
  then show "\<exists>issues. api_quote P E net req_body =
                      ([], json_reply 400 (fail_body P (ZodError issues)))"
    by (rule quote_field_rejects [OF QuoteBody_def, rotated]) simp
next
  assume "get_own fs (lit ''slippageBps'') = JUndefined"
  then show "schema_parse QuoteBody (JObj fs) =
          schema_parse QuoteBody (JObj ((lit ''slippageBps'', JNum (Fin 50)) # fs))"
    by (rule absent_slippage_is_50)
next
  assume "get_own fs (lit ''slippageBps'') = JUndefined
        \<and> get_own fs (lit ''inputMint'') = JStr i \<and> 8 \<le> length i
        \<and> get_own fs (lit ''outputMint'') = JStr out \<and> 8 \<le> length out
        \<and> get_own fs (lit ''amount'') = JStr a \<and> digits_only a
        \<and> get_own fs (lit ''onlyDirectRoutes'') = d
        \<and> (d = JUndefined \<or> d = JBool True \<or> d = JBool False)"
  then show "schema_parse QuoteBody (JObj fs) =
           Inr (JObj [(lit ''inputMint'', JStr i), (lit ''outputMint'', JStr out),
                      (lit ''amount'', JStr a), (lit ''slippageBps'', JNum (Fin 50)),
                      (lit ''onlyDirectRoutes'', if d = JUndefined then JBool False else d)])"
    by (intro quote_accepts) simp_all
qed

text \<open>The slippage 1001, and the sample quote request, which has no \<open>slippageBps\<close>.\<close>

theorem slippage_range_and_default_witness:
  "api_quote sample_platform default_env net_down (quote_with (lit ''slippageBps'') (JNum (Fin 1001)))
     = ([], json_reply 400 (JObj [(lit ''ok'', JBool False), (lit ''error'', JStr (lit ''Invalid input''))]))
   \<and> schema_parse QuoteBody good_quote
       = schema_parse QuoteBody (quote_with (lit ''slippageBps'') (JNum (Fin 50)))
   \<and> schema_parse QuoteBody good_quote = Inr good_data"
proof -
  let ?big = "quote_with (lit ''slippageBps'') (JNum (Fin 1001))"
  note inst = slippage_range_and_default
    [of ?big sample_platform default_env net_down quote_fields sol_mint usdc_mint
        "lit ''1000000''" JUndefined]
  have absent: "get_own quote_fields (lit ''slippageBps'') = JUndefined"
    by (simp add: quote_fields_def)
  have bad: "get_opt ?big (lit ''slippageBps'') \<noteq> JUndefined
      \<and> \<not> slippage_in_range (get_opt ?big (lit ''slippageBps''))"
    by (simp add: quote_with_def slippage_in_range_def)
  have rest: "get_own quote_fields (lit ''slippageBps'') = JUndefined
        \<and> get_own quote_fields (lit ''inputMint'') = JStr sol_mint \<and> 8 \<le> length sol_mint
        \<and> get_own quote_fields (lit ''outputMint'') = JStr usdc_mint \<and> 8 \<le> length usdc_mint
        \<and> get_own quote_fields (lit ''amount'') = JStr (lit ''1000000'')
        \<and> digits_only (lit ''1000000'')
        \<and> get_own quote_fields (lit ''onlyDirectRoutes'') = JUndefined
        \<and> (JUndefined = JUndefined \<or> JUndefined = JBool True \<or> JUndefined = JBool False)"
    by (simp add: quote_fields_def sol_mint_def usdc_mint_def digits_1000000)
  from inst [THEN conjunct1, THEN mp, OF bad]
  have one: "api_quote sample_platform default_env net_down ?big
     = ([], json_reply 400 (JObj [(lit ''ok'', JBool False), (lit ''error'', JStr (lit ''Invalid input''))]))"
    by (auto simp: fail_body_def error_text_def sample_platform_def)
  from inst [THEN conjunct2, THEN conjunct1, THEN mp, OF absent]
  have two: "schema_parse QuoteBody good_quote
       = schema_parse QuoteBody (quote_with (lit ''slippageBps'') (JNum (Fin 50)))"
    by (simp add: good_quote_def quote_with_def)
  from inst [THEN conjunct2, THEN conjunct2, THEN mp, OF rest]
  have three: "schema_parse QuoteBody good_quote = Inr good_data"
    by (simp add: good_quote_def good_data_def)
  from one two three show ?thesis
    by simp
qed

section \<open>The upstream client's results\<close>

lemma lit_append [simp]: "lit a @ lit b = lit (a @ b)"
  by (simp add: lit_def)

lemma lit_append_assoc [simp]: "lit a @ lit b @ s = lit (a @ b) @ s"
  by (simp add: lit_def)

text \<open>The digits printed for a status denote that status.\<close>

lemma digits_value_snoc: "digits_value (s @ [u]) = 10 * digits_value s + (unat u - 48)"
  by (simp add: digits_value_def)

lemma unat_digit: "d < 10 \<Longrightarrow> unat (of_nat (48 + d) :: code_unit) = 48 + d"
  by (simp only: unat_of_nat) simp

lemma digits_value_decimal: "digits_value (decimal n) = n"
proof (induction n rule: decimal.induct)
  case (1 n)
  show ?case
  proof (cases "n < 10")
    case True
    then show ?thesis
      by (subst decimal.simps) (simp add: digits_value_def unat_digit del: of_nat_add)
  next
    case False
    have "digits_value (decimal n) = 10 * digits_value (decimal (n div 10)) + (unat (of_nat (48 + n mod 10) :: code_unit) - 48)"
      using False by (subst decimal.simps) (simp add: digits_value_snoc del: of_nat_add)
    also have "\<dots> = 10 * (n div 10) + n mod 10"
      using False "1.IH" by (simp add: unat_digit del: of_nat_add)
    finally show ?thesis
      by simp
  qed
qed

lemma decimal_500: "decimal 500 = lit ''500''"
  by (simp add: decimal.simps [of 500] decimal.simps [of 50] decimal.simps [of 5] lit_def)

lemma decimal_404: "decimal 404 = lit ''404''"
  by (simp add: decimal.simps [of 404] decimal.simps [of 40] decimal.simps [of 4] lit_def)

text \<open>The four ways a call can end.\<close>

lemma fetchJSON_unreachable:
  "net (Call url init) = Unreachable err \<Longrightarrow> fetchJSON P net url init = Inl err"
  by (simp add: fetchJSON_def)

lemma fetchJSON_timeout:
  "net (Call url init) = NoResponseInTime \<Longrightarrow> fetchJSON P net url init = Inl (AbortError P)"
  by (simp add: fetchJSON_def)

lemma fetchJSON_ok:
  "net (Call url init) = Responded st b \<Longrightarrow> r_ok st \<Longrightarrow>
     fetchJSON P net url init = Inr (json_or_empty b)"
  by (simp add: fetchJSON_def)

lemma fetchJSON_not_ok:
  "net (Call url init) = Responded st b \<Longrightarrow> \<not> r_ok st \<Longrightarrow>
     fetchJSON P net url init =
       Inl (new_Error P (js_or (get_opt (json_or_empty b) (lit ''error''))
                               (JStr (lit ''Fetch failed: '' @ decimal st))))"
  by (simp add: fetchJSON_def)

text \<open>
  Claim C2, as stated, fails: for the upstream body \<open>{"error": ""}\<close> with the status
  500 the \<open>error\<close> field is present, and the message is the generic one, not the
  field.
\<close>

theorem fetchJSON_empty_error_counterexample:
  "get_opt (JObj [(lit ''error'', JStr [])]) (lit ''error'') = JStr []
   \<and> fetchJSON sample_platform (net_replying 500 (Some (JObj [(lit ''error'', JStr [])])))
         tokens_url None
       = Inl (Error (lit ''Fetch failed: 500''))"
  by (simp add: fetchJSON_def net_replying_def r_ok_def json_or_empty_def js_or_def
                new_Error_def decimal_500 lit_def)

text \<open>
  Claim C2, amended. Whatever the status, the client works on the parsed body, or on
  the empty object when the body does not parse. With a status from 200 to 299 it
  returns that value. With any other status it fails: the message is the \<open>error\<close>
  field when that field is a non-empty string, and it is \<open>Fetch failed: \<close> followed by
  the decimal digits of the status when the field is missing or falsy (\<open>null\<close>,
  \<open>false\<close>, \<open>0\<close>, the empty string).
\<close>

theorem fetchJSON_status_and_message:
  assumes "net (Call url init) = Responded st b"
  shows "(r_ok st \<longrightarrow> fetchJSON P net url init = Inr (json_or_empty b))
    \<and> (\<not> r_ok st \<and> get_opt (json_or_empty b) (lit ''error'') = JStr m \<and> m \<noteq> []
         \<longrightarrow> fetchJSON P net url init = Inl (Error m))
    \<and> (\<not> r_ok st \<and> \<not> truthy (get_opt (json_or_empty b) (lit ''error''))
         \<longrightarrow> fetchJSON P net url init = Inl (Error (lit ''Fetch failed: '' @ decimal st))
             \<and> digits_value (decimal st) = st)
    \<and> (b = None \<longrightarrow> json_or_empty b = JObj [])"
  using assms
  by (auto simp: fetchJSON_ok fetchJSON_not_ok new_Error_def js_or_def digits_value_decimal
                 json_or_empty_def)

text \<open>
  A body that does not parse with the status 200, and with the status 404; an \<open>error\<close>
  string with the status 500.
\<close>

theorem fetchJSON_status_and_message_witness:
  "fetchJSON sample_platform (net_replying 200 None) tokens_url None = Inr (JObj [])
   \<and> fetchJSON sample_platform
         (net_replying 500 (Some (JObj [(lit ''error'', JStr (lit ''Route not found''))])))
         tokens_url None
       = Inl (Error (lit ''Route not found''))
   \<and> fetchJSON sample_platform (net_replying 404 None) tokens_url None
       = Inl (Error (lit ''Fetch failed: 404''))"
proof -
  let ?body = "Some (JObj [(lit ''error'', JStr (lit ''Route not found''))])"
  have a: "net_replying 200 None (Call tokens_url None) = Responded 200 None"
    and b: "net_replying 500 ?body (Call tokens_url None) = Responded 500 ?body"
    and c: "net_replying 404 None (Call tokens_url None) = Responded 404 None"
    by (simp_all add: net_replying_def)
  from fetchJSON_status_and_message [where net = "net_replying 200 None" and P = sample_platform, OF a]
  have one: "fetchJSON sample_platform (net_replying 200 None) tokens_url None = Inr (JObj [])"
    by (simp add: r_ok_def json_or_empty_def)
  from fetchJSON_status_and_message [where net = "net_replying 500 ?body" and P = sample_platform and m = "lit ''Route not found''", OF b]
  have two: "fetchJSON sample_platform (net_replying 500 ?body) tokens_url None
       = Inl (Error (lit ''Route not found''))"
    by (simp add: r_ok_def json_or_empty_def)
  from fetchJSON_status_and_message [where net = "net_replying 404 None" and P = sample_platform, OF c]
  have three: "fetchJSON sample_platform (net_replying 404 None) tokens_url None
       = Inl (Error (lit ''Fetch failed: 404''))"
    by (simp add: r_ok_def json_or_empty_def decimal_404)
  from one two three show ?thesis
    by simp
qed

section \<open>What the handlers catch\<close>

text \<open>The sample requests, validated, and the URL of the sample quote call.\<close>

lemma decimal_50: "decimal 50 = lit ''50''"
  by (simp add: decimal.simps [of 50] decimal.simps [of 5] lit_def)

lemma parse_good_quote: "schema_parse QuoteBody good_quote = Inr good_data"
  by (simp add: schema_parse_def QuoteBody_def good_quote_def quote_fields_def good_data_def
                merge_object_def sol_mint_def usdc_mint_def digits_1000000)

lemma parse_bad_amount:
  "schema_parse QuoteBody (quote_with (lit ''amount'') (JStr (lit ''12x'')))
     = Inl (ZodError [Issue [lit ''amount''] invalid_string])"
  by (simp add: schema_parse_def QuoteBody_def quote_with_def quote_fields_def
                merge_object_def sol_mint_def usdc_mint_def under_key_def
                digits_only_def is_digit_def lit_def [of "''12x''"])

lemma url_good_quote: "quote_url sample_platform default_env good_data = Inr good_quote_url"
  by (simp add: quote_url_def good_data_def and_then_def sample_platform_def print_number_def
                decimal_50 JUPITER_BASE_def default_env_def env_or_def good_quote_url_def
                sol_mint_def usdc_mint_def)

lemma parse_good_swap: "schema_parse SwapBody (swap_with_key a_wallet) = Inr good_swap_data"
  by (simp add: schema_parse_def SwapBody_def swap_with_key_def good_swap_data_def
                merge_object_def a_wallet_def a_quote_def)

lemma parse_short_key:
  "schema_parse SwapBody (swap_with_key (lit ''tooShortKey''))
     = Inl (ZodError [Issue [lit ''userPublicKey''] too_small])"
  by (simp add: schema_parse_def SwapBody_def swap_with_key_def
                merge_object_def a_quote_def under_key_def)

text \<open>
  The client fails exactly when no response with a status from 200 to 299 arrives:
  the upstream is unreachable, the timer aborts the call, or the status is another.
  The text reported for an error is its message, unless that is empty.
\<close>

lemma fetchJSON_fails_iff:
  "(\<exists>err. fetchJSON P net url init = Inl err)
     \<longleftrightarrow> \<not> (\<exists>st b. net (Call url init) = Responded st b \<and> r_ok st)"
  by (cases "net (Call url init)") (auto simp: fetchJSON_def Let_def)

lemma error_text_message: "message P err \<noteq> [] \<Longrightarrow> error_text P err = message P err"
  by (simp add: error_text_def)

text \<open>
  Claim C1, as stated, fails for \<open>GET /api/tokens\<close>: that handler calls the upstream
  too, and it answers an upstream failure with 500, not 400.
\<close>

theorem tokens_failure_is_500_counterexample:
  "fetchJSON sample_platform net_down tokens_url None = Inl (TypeError (lit ''fetch failed''))
   \<and> api_tokens sample_platform net_down
       = ([Call tokens_url None],
          json_reply 500 (JObj [(lit ''ok'', JBool False), (lit ''error'', JStr (lit ''fetch failed''))]))"
  by (simp add: api_tokens_def tokens_try_def and_then_def fetchJSON_def net_down_def
                fail_body_def error_text_def)

text \<open>
  Claim C1, amended. In \<open>POST /api/quote\<close> and \<open>POST /api/swap\<close> a validation error
  and an error of the upstream call are caught in the handler and answered with the
  status 400 and the body \<open>{ok:false, error}\<close>; after a validation error no call has
  been made. In \<open>GET /api/tokens\<close> an error of the upstream call is caught in the
  handler and answered with the status 500 and a body of the same shape. \<open>error\<close> is
  the message of the error (\<open>String(err)\<close> if the message is empty).
\<close>

theorem handlers_catch_errors:
  "(schema_parse QuoteBody req_body = Inl err
      \<longrightarrow> api_quote P E net req_body = ([], json_reply 400 (fail_body P err)))
   \<and> (schema_parse QuoteBody req_body = Inr data \<and> quote_url P E data = Inr url
        \<and> fetchJSON P net url None = Inl err
      \<longrightarrow> api_quote P E net req_body = ([Call url None], json_reply 400 (fail_body P err)))
   \<and> (schema_parse SwapBody req_body = Inl err
      \<longrightarrow> api_swap P E net req_body = ([], json_reply 400 (fail_body P err)))
   \<and> (schema_parse SwapBody req_body = Inr data
        \<and> fetchJSON P net (swap_url E) (Some (swap_init data)) = Inl err
      \<longrightarrow> api_swap P E net req_body =
            ([Call (swap_url E) (Some (swap_init data))], json_reply 400 (fail_body P err)))
   \<and> (fetchJSON P net tokens_url None = Inl err
      \<longrightarrow> api_tokens P net = ([Call tokens_url None], json_reply 500 (fail_body P err)))"
  by (simp add: api_quote_def quote_try_def api_swap_def swap_try_def api_tokens_def
                tokens_try_def and_then_def)

text \<open>
  A bad amount and an unreachable upstream for the quote route, a short key and a call
  that times out for the swap route, the status 500 from upstream for the token route.
\<close>

theorem handlers_catch_errors_witness:
  "api_quote sample_platform default_env net_down (quote_with (lit ''amount'') (JStr (lit ''12x'')))
     = ([], json_reply 400 (JObj [(lit ''ok'', JBool False), (lit ''error'', JStr (lit ''Invalid input''))]))
   \<and> api_quote sample_platform default_env net_down good_quote
     = ([Call good_quote_url None],
        json_reply 400 (JObj [(lit ''ok'', JBool False), (lit ''error'', JStr (lit ''fetch failed''))]))
   \<and> api_swap sample_platform default_env net_silent (swap_with_key (lit ''tooShortKey''))
     = ([], json_reply 400 (JObj [(lit ''ok'', JBool False), (lit ''error'', JStr (lit ''Invalid input''))]))
   \<and> api_swap sample_platform default_env net_silent (swap_with_key a_wallet)
     = ([Call (swap_url default_env) (Some (swap_init good_swap_data))],
        json_reply 400 (JObj [(lit ''ok'', JBool False),
                              (lit ''error'', JStr (lit ''This operation was aborted''))]))
   \<and> api_tokens sample_platform (net_replying 500 None)
     = ([Call tokens_url None],
        json_reply 500 (JObj [(lit ''ok'', JBool False), (lit ''error'', JStr (lit ''Fetch failed: 500''))]))"
proof -
  have down: "fetchJSON sample_platform net_down good_quote_url None
                = Inl (TypeError (lit ''fetch failed''))"
    by (simp add: fetchJSON_def net_down_def)
  have silent: "fetchJSON sample_platform net_silent (swap_url default_env)
                  (Some (swap_init good_swap_data)) = Inl (AbortError sample_platform)"
    by (simp add: fetchJSON_def net_silent_def)
  have unavailable: "fetchJSON sample_platform (net_replying 500 None) tokens_url None
                = Inl (Error (lit ''Fetch failed: 500''))"
    by (simp add: fetchJSON_def net_replying_def r_ok_def json_or_empty_def js_or_def
                  new_Error_def decimal_500)
  have one: "api_quote sample_platform default_env net_down
               (quote_with (lit ''amount'') (JStr (lit ''12x'')))
     = ([], json_reply 400 (JObj [(lit ''ok'', JBool False), (lit ''error'', JStr (lit ''Invalid input''))]))"
    using handlers_catch_errors [THEN conjunct1, THEN mp, OF parse_bad_amount,
        of sample_platform default_env net_down]
    by (simp add: fail_body_def error_text_def sample_platform_def)
  have two: "api_quote sample_platform default_env net_down good_quote
     = ([Call good_quote_url None],
        json_reply 400 (JObj [(lit ''ok'', JBool False), (lit ''error'', JStr (lit ''fetch failed''))]))"
    using handlers_catch_errors [THEN conjunct2, THEN conjunct1, THEN mp,
        OF conjI [OF parse_good_quote conjI [OF url_good_quote down]]]
    by (simp add: fail_body_def error_text_def)
  have three: "api_swap sample_platform default_env net_silent (swap_with_key (lit ''tooShortKey''))
     = ([], json_reply 400 (JObj [(lit ''ok'', JBool False), (lit ''error'', JStr (lit ''Invalid input''))]))"
    using handlers_catch_errors [THEN conjunct2, THEN conjunct2, THEN conjunct1, THEN mp,
        OF parse_short_key, of sample_platform default_env net_silent]
    by (simp add: fail_body_def error_text_def sample_platform_def)
  have four: "api_swap sample_platform default_env net_silent (swap_with_key a_wallet)
     = ([Call (swap_url default_env) (Some (swap_init good_swap_data))],
        json_reply 400 (JObj [(lit ''ok'', JBool False),
                              (lit ''error'', JStr (lit ''This operation was aborted''))]))"
    using handlers_catch_errors [THEN conjunct2, THEN conjunct2, THEN conjunct2, THEN conjunct1,
        THEN mp, OF conjI [OF parse_good_swap silent]]
    by (simp add: fail_body_def error_text_def AbortError_def sample_platform_def)
  have five: "api_tokens sample_platform (net_replying 500 None)
     = ([Call tokens_url None],
        json_reply 500 (JObj [(lit ''ok'', JBool False), (lit ''error'', JStr (lit ''Fetch failed: 500''))]))"
    using handlers_catch_errors [THEN conjunct2, THEN conjunct2, THEN conjunct2, THEN conjunct2,
        THEN mp, OF unavailable]
    by (simp add: fail_body_def error_text_def)
  from one two three four five show ?thesis
    by simp
qed

section \<open>The response shaper\<close>

text \<open>
  Reading a property throws only for \<open>null\<close> and \<open>undefined\<close>. \<open>JSON.stringify\<close>
  adds no property to an object.
\<close>

lemma get_prop_defined:
  "t \<noteq> JNull \<Longrightarrow> t \<noteq> JUndefined \<Longrightarrow> get_prop P t k = Inr (get_opt t k)"
  by (cases t) simp_all

lemma small_token_defined:
  assumes "t \<noteq> JNull" and "t \<noteq> JUndefined"
  shows "small_token P t =
     Inr (JObj [(lit ''address'', get_opt t (lit ''address'')),
                (lit ''symbol'', get_opt t (lit ''symbol'')),
                (lit ''name'', get_opt t (lit ''name'')),
                (lit ''decimals'', get_opt t (lit ''decimals'')),
                (lit ''tags'', if truthy (get_opt t (lit ''tags''))
                               then get_opt t (lit ''tags'') else JArr [])])"
  using assms by (simp add: small_token_def get_prop_defined and_then_def js_or_def)

lemma map_throwing_total:
  "\<forall>x\<in>set xs. f x = Inr (g x) \<Longrightarrow> map_throwing f xs = Inr (map g xs)"
  by (induction xs) (simp_all add: and_then_def)

lemma wire_props_keys: "set (map fst (wire_props fs)) \<subseteq> set (map fst fs)"
  by (induction fs) (force split: if_splits)+

text \<open>
  Claim C4. When the upstream answers \<open>GET /api/tokens\<close> with an array of records
  (of any values but \<open>null\<close>), the response is \<open>{ok:true, tokens}\<close> where each record,
  whatever other fields it carries, has become the object of exactly the five
  properties \<open>address\<close>, \<open>symbol\<close>, \<open>name\<close>, \<open>decimals\<close> and \<open>tags\<close> with the values
  of the record, and \<open>tags\<close> is the empty array when the record has no \<open>tags\<close>.
  (A property is \<open>undefined\<close> when the record lacks it; \<open>tags\<close> is the empty array
  also for a falsy \<open>tags\<close>.)
\<close>

theorem tokens_projected_to_five_fields:
  assumes "net (Call tokens_url None) = Responded st (Some (JArr ts))" and "r_ok st"
    and "\<forall>t\<in>set ts. t \<noteq> JNull \<and> t \<noteq> JUndefined"
  shows "api_tokens P net =
     ([Call tokens_url None],
      json_reply 200
        (JObj [(lit ''ok'', JBool True),
               (lit ''tokens'',
                JArr (map (\<lambda>t. JObj [(lit ''address'', get_opt t (lit ''address'')),
                                      (lit ''symbol'', get_opt t (lit ''symbol'')),
                                      (lit ''name'', get_opt t (lit ''name'')),
                                      (lit ''decimals'', get_opt t (lit ''decimals'')),
                                      (lit ''tags'', if truthy (get_opt t (lit ''tags''))
                                                     then get_opt t (lit ''tags'') else JArr [])])
                          ts))]))"
proof -
  have "fetchJSON P net tokens_url None = Inr (JArr ts)"
    using assms(1,2) by (simp add: fetchJSON_ok json_or_empty_def)
  moreover have "map_throwing (small_token P) ts =
     Inr (map (\<lambda>t. JObj [(lit ''address'', get_opt t (lit ''address'')),
                          (lit ''symbol'', get_opt t (lit ''symbol'')),
                          (lit ''name'', get_opt t (lit ''name'')),
                          (lit ''decimals'', get_opt t (lit ''decimals'')),
                          (lit ''tags'', if truthy (get_opt t (lit ''tags''))
                                         then get_opt t (lit ''tags'') else JArr [])]) ts)"
    using assms(3) by (intro map_throwing_total) (simp add: small_token_defined)
  ultimately show ?thesis
    by (simp add: api_tokens_def tokens_try_def and_then_def)
qed

text \<open>A record with \<open>chainId\<close> and \<open>logoURI\<close> and without \<open>tags\<close>.\<close>

theorem tokens_projected_to_five_fields_witness:
  "api_tokens sample_platform (net_replying 200 (Some (JArr [a_token]))) =
     ([Call tokens_url None],
      json_reply 200
        (JObj [(lit ''ok'', JBool True),
               (lit ''tokens'',
                JArr [JObj [(lit ''address'', JStr sol_mint),
                            (lit ''symbol'', JStr (lit ''SOL'')),
                            (lit ''name'', JStr (lit ''Wrapped SOL'')),
                            (lit ''decimals'', JNum (Fin 9)),
                            (lit ''tags'', JArr [])]])]))"
proof -
  have a: "net_replying 200 (Some (JArr [a_token])) (Call tokens_url None)
             = Responded 200 (Some (JArr [a_token]))"
    by (simp add: net_replying_def)
  have b: "r_ok 200"
    by (simp add: r_ok_def)
  have c: "\<forall>t\<in>set [a_token]. t \<noteq> JNull \<and> t \<noteq> JUndefined"
    by (simp add: a_token_def)
  from tokens_projected_to_five_fields
         [where net = "net_replying 200 (Some (JArr [a_token]))" and P = sample_platform, OF a b c]
  show ?thesis
    by (simp add: a_token_def)
qed

text \<open>
  Claim C7, as stated, fails: when the upstream answers a valid swap request with the
  status 200 and the payload \<open>null\<close>, which has no \<open>swapTransaction\<close>, reading the
  field throws, and the response is 400.
\<close>

theorem swap_null_payload_counterexample:
  "schema_parse SwapBody (swap_with_key a_wallet) = Inr good_swap_data
   \<and> api_swap sample_platform default_env (net_replying 200 (Some JNull)) (swap_with_key a_wallet)
     = ([Call (swap_url default_env) (Some (swap_init good_swap_data))],
        json_reply 400
          (JObj [(lit ''ok'', JBool False),
                 (lit ''error'',
                  JStr (lit ''Cannot read properties of null (reading swapTransaction)''))]))"
  by (simp add: parse_good_swap api_swap_def swap_try_def fetchJSON_def net_replying_def
                r_ok_def json_or_empty_def and_then_def fault_def fail_body_def error_text_def
                sample_platform_def)

text \<open>
  Claim C7, amended. When the upstream answers a valid \<open>POST /api/swap\<close> request with
  a status from 200 to 299 and a payload other than \<open>null\<close>, the response is 200 with
  exactly \<open>{ok:true, swapTransaction}\<close>, \<open>swapTransaction\<close> being that field of the
  payload and nothing else of the payload; when the payload has no such field the value
  is \<open>undefined\<close> and the serialised body is \<open>{ok:true}\<close>, without an error.
\<close>

theorem swap_returns_only_the_transaction:
  assumes "schema_parse SwapBody req_body = Inr data"
    and "net (Call (swap_url E) (Some (swap_init data))) = Responded st b" and "r_ok st"
    and "json_or_empty b \<noteq> JNull" and "json_or_empty b \<noteq> JUndefined"
  shows "api_swap P E net req_body =
     ([Call (swap_url E) (Some (swap_init data))],
      json_reply 200
        (JObj [(lit ''ok'', JBool True),
               (lit ''swapTransaction'', get_opt (json_or_empty b) (lit ''swapTransaction''))]))
   \<and> (get_opt (json_or_empty b) (lit ''swapTransaction'') = JUndefined \<longrightarrow>
        wire (JObj [(lit ''ok'', JBool True),
                    (lit ''swapTransaction'', get_opt (json_or_empty b) (lit ''swapTransaction''))])
          = JObj [(lit ''ok'', JBool True)])"
  using assms
  by (simp add: api_swap_def swap_try_def fetchJSON_ok get_prop_defined and_then_def)

text \<open>A payload with the transaction and a block height, and a payload without the field.\<close>

theorem swap_returns_only_the_transaction_witness:
  "api_swap sample_platform default_env (net_replying 200 (Some a_swap_payload)) (swap_with_key a_wallet)
     = ([Call (swap_url default_env) (Some (swap_init good_swap_data))],
        json_reply 200
          (JObj [(lit ''ok'', JBool True), (lit ''swapTransaction'', JStr (lit ''AQAAAA==''))]))
   \<and> api_swap sample_platform default_env (net_replying 200 (Some a_quote)) (swap_with_key a_wallet)
     = ([Call (swap_url default_env) (Some (swap_init good_swap_data))],
        json_reply 200 (JObj [(lit ''ok'', JBool True), (lit ''swapTransaction'', JUndefined)]))
   \<and> wire (JObj [(lit ''ok'', JBool True), (lit ''swapTransaction'', JUndefined)])
       = JObj [(lit ''ok'', JBool True)]"
proof -
  let ?call = "Call (swap_url default_env) (Some (swap_init good_swap_data))"
  have ok: "r_ok 200"
    by (simp add: r_ok_def)
  have a: "net_replying 200 (Some a_swap_payload) ?call = Responded 200 (Some a_swap_payload)"
    and b: "net_replying 200 (Some a_quote) ?call = Responded 200 (Some a_quote)"
    by (simp_all add: net_replying_def)
  have pa: "json_or_empty (Some a_swap_payload) \<noteq> JNull"
      "json_or_empty (Some a_swap_payload) \<noteq> JUndefined"
    and pb: "json_or_empty (Some a_quote) \<noteq> JNull" "json_or_empty (Some a_quote) \<noteq> JUndefined"
    by (simp_all add: json_or_empty_def a_swap_payload_def a_quote_def)
  from swap_returns_only_the_transaction
         [where net = "net_replying 200 (Some a_swap_payload)" and P = sample_platform,
          OF parse_good_swap a ok pa]
  have one: "api_swap sample_platform default_env (net_replying 200 (Some a_swap_payload))
               (swap_with_key a_wallet)
     = ([?call],
        json_reply 200
          (JObj [(lit ''ok'', JBool True), (lit ''swapTransaction'', JStr (lit ''AQAAAA==''))]))"
    by (simp add: json_or_empty_def a_swap_payload_def)
  have absent: "get_opt (json_or_empty (Some a_quote)) (lit ''swapTransaction'') = JUndefined"
    by (simp add: json_or_empty_def a_quote_def)
  from swap_returns_only_the_transaction
         [where net = "net_replying 200 (Some a_quote)" and P = sample_platform,
          OF parse_good_swap b ok pb]
  have two: "api_swap sample_platform default_env (net_replying 200 (Some a_quote))
               (swap_with_key a_wallet)
     = ([?call],
        json_reply 200 (JObj [(lit ''ok'', JBool True), (lit ''swapTransaction'', JUndefined)]))"
    and three: "wire (JObj [(lit ''ok'', JBool True), (lit ''swapTransaction'', JUndefined)])
       = JObj [(lit ''ok'', JBool True)]"
    using absent by simp_all
  from one two three show ?thesis
    by simp
qed

section \<open>The ingress filter\<close>

text \<open>
  The allow-list never holds the empty string, and without \<open>CORS_ORIGINS\<close> it is the
  one built-in origin.
\<close>

lemma Nil_lit_iff [simp]: "[] = lit s \<longleftrightarrow> s = []"
  by (simp add: lit_def)

lemma empty_origin_never_listed: "[] \<notin> set (allowedOrigins E)"
  by (simp add: allowedOrigins_def envOrigins_def)

lemma default_allowedOrigins: "allowedOrigins default_env = [lit ''https://zk-chan.fun'']"
  by (simp add: allowedOrigins_def envOrigins_def default_env_def env_or_def trim_def)

text \<open>
  The error middleware recognises the error of the origin callback. An error of
  \<open>express.json\<close> reaches the error middleware before cors has run. A request that
  passes the filter reaches its route.
\<close>

lemma cors_error_recognised:
  "error_middleware P (Error (lit ''CORS: origin not allowed'')) =
     json_reply 403
       (JObj [(lit ''ok'', JBool False), (lit ''error'', JStr (lit ''CORS: origin not allowed''))])"
proof -
  have "occurs_in (lit ''CORS'') (lit ''Error: CORS: origin not allowed'')"
    by (simp add: lit_def)
  then show ?thesis
    by (simp add: error_middleware_def fail_body_def error_text_def)
qed

lemma serve_body_error:
  "parsed_body rq = Inl err \<Longrightarrow> serve P E w rq = ([], error_middleware P err)"
  by (simp add: serve_def)

lemma serve_admitted:
  assumes "parsed_body rq = Inr req_body" and "cors_origin E (origin_header rq) = Inr True"
    and "target rq \<noteq> Preflight" and "\<not> (under_api (target rq) \<and> w_over_limit w)"
  shows "serve P E w rq = dispatch P E w (target rq) req_body"
  using assms by (auto simp: serve_def)

text \<open>
  Claim C6, as stated, fails: \<open>express.json\<close> is mounted before cors, so a request
  from an origin outside the allow-list whose JSON body is malformed is answered by the
  error middleware with 500, not 403.
\<close>

theorem foreign_origin_malformed_body_counterexample:
  "foreign_origin \<notin> set (allowedOrigins default_env)
   \<and> serve sample_platform default_env (quiet_world net_down)
        (request_from (Some foreign_origin) (Inl malformed_body) ApiQuote)
     = ([], json_reply 500
              (JObj [(lit ''ok'', JBool False), (lit ''error'', JStr (lit ''Internal server error''))]))"
proof -
  have "\<not> occurs_in (lit ''CORS'') (lit ''SyntaxError: Unexpected token b in JSON at position 1'')"
    by (simp add: lit_def)
  then show ?thesis
    by (simp add: default_allowedOrigins foreign_origin_def serve_def request_from_def
                  malformed_body_def error_middleware_def)
qed

text \<open>
  The callback also lets an empty \<open>Origin\<close> header through (\<open>!origin\<close>), although the
  allow-list never holds the empty string.
\<close>

lemma empty_origin_passes:
  "serve sample_platform default_env (quiet_world net_down) (request_from (Some []) (Inr (JObj [])) Root)
     = ([], \<lparr>status = 200, body = TextBody (lit ''zkChan Backend is running'')\<rparr>)"
  by (simp add: serve_def request_from_def cors_origin_def root_def APP_NAME_def
                default_env_def env_or_def)

text \<open>
  Claim C6, amended. A request whose \<open>Origin\<close> header is present, not empty and not in
  the allow-list, and whose body \<open>express.json\<close> has accepted, gets the status 403 with
  the body \<open>{ok:false, error}\<close>, on every route; no route handler runs and no
  outbound call is made.
\<close>

theorem foreign_origin_forbidden:
  assumes "origin_header rq = Some s" and "s \<noteq> []" and "s \<notin> set (allowedOrigins E)"
    and "parsed_body rq = Inr req_body"
  shows "serve P E w rq =
     ([], json_reply 403
            (JObj [(lit ''ok'', JBool False),
                   (lit ''error'', JStr (lit ''CORS: origin not allowed''))]))"
  using assms by (simp add: serve_def cors_origin_def cors_error_recognised)

text \<open>A valid quote request from a foreign origin.\<close>

theorem foreign_origin_forbidden_witness:
  "serve sample_platform default_env (quiet_world net_down)
        (request_from (Some foreign_origin) (Inr good_quote) ApiQuote)
     = ([], json_reply 403
              (JObj [(lit ''ok'', JBool False),
                     (lit ''error'', JStr (lit ''CORS: origin not allowed''))]))"
proof -
  let ?rq = "request_from (Some foreign_origin) (Inr good_quote) ApiQuote"
  have a: "origin_header ?rq = Some foreign_origin"
    and b: "foreign_origin \<noteq> []"
    and c: "foreign_origin \<notin> set (allowedOrigins default_env)"
    and d: "parsed_body ?rq = Inr good_quote"
    by (simp_all add: request_from_def foreign_origin_def default_allowedOrigins)
  from foreign_origin_forbidden [OF a b c d] show ?thesis .
qed

text \<open>
  The rate limiter is mounted on \<open>/api/\<close> with the options \<open>windowMs: 60_000\<close> and
  \<open>max: 120\<close>; how it counts the requests of a client over time is the package's own
  business. What the chain fixes is where its verdict applies: a request under
  \<open>/api/\<close> that is over the limit is answered with 429 and reaches no handler, and
  the routes \<open>/\<close> and \<open>/health\<close> are never limited.
\<close>

lemma serve_over_limit:
  assumes "parsed_body rq = Inr req_body" and "cors_origin E (origin_header rq) = Inr True"
    and "target rq \<noteq> Preflight" and "under_api (target rq)" and "w_over_limit w"
  shows "serve P E w rq = ([], rate_limit_reply)"
  using assms by (simp add: serve_def)

lemma serve_outside_api:
  assumes "parsed_body rq = Inr req_body" and "cors_origin E (origin_header rq) = Inr True"
    and "target rq = Root \<or> target rq = Health"
  shows "serve P E w rq = dispatch P E w (target rq) req_body"
  using assms by (auto simp: serve_def)

end
